theory Spec2Isabelle
  imports Complex_Main "HOL-Library.AList"
begin

section \<open>Common Python notions\<close>

text \<open>
  The detectors are Python 3 classes. Floats are modelled as real numbers: a score is
  the exact value, which the double-precision result of the program approximates to
  within rounding (0.884 is computed as 0.8840000000000001). Where a property depends
  on the rounding itself, the computation is modelled a second time in double
  precision (\<open>calculate_double\<close>). Integers are \<open>int\<close> or \<open>nat\<close>, strings are lists
  of characters. A dictionary is the list of
  its items in insertion order; a dictionary built by Python has distinct keys, which a
  theorem assumes where it matters. Every exception the modelled code can raise is a
  value of \<open>py_error\<close>, and a function that can raise returns \<open>py_error + 'a\<close>.
\<close>

datatype py_error =
  TypeError | KeyError | ValueError | IndexError | ZeroDivisionError | UnboundLocalError
  | LookupFailure

type_synonym 'v dict = "(string \<times> 'v) list"

text \<open>\<open>d.get(k)\<close> on a dictionary whose values may be \<open>None\<close>: a missing key and a
  stored \<open>None\<close> both give \<open>None\<close>.\<close>

definition dict_get :: "'v option dict \<Rightarrow> string \<Rightarrow> 'v option" where
  "dict_get d k = (case map_of d k of None \<Rightarrow> None | Some v \<Rightarrow> v)"

text \<open>\<open>d.get(k, dflt)\<close>: the default replaces a missing key only; a stored \<open>None\<close>
  is returned as it is.\<close>

definition dict_get_default :: "'v option dict \<Rightarrow> string \<Rightarrow> 'v \<Rightarrow> 'v option" where
  "dict_get_default d k dflt = (case map_of d k of None \<Rightarrow> Some dflt | Some v \<Rightarrow> v)"

text \<open>\<open>v > c\<close> for a float constant \<open>c\<close>: comparing \<open>None\<close> with a number raises
  \<open>TypeError\<close> in Python 3.\<close>

definition py_gt :: "real option \<Rightarrow> real \<Rightarrow> py_error + bool" where
  "py_gt v c = (case v of None \<Rightarrow> Inl TypeError | Some x \<Rightarrow> Inr (c < x))"

section \<open>Risk scorer (detectors/risk\_scorer.py)\<close>

record RiskScorer =
  weights :: "real dict"

definition RiskScorer_init :: RiskScorer where
  "RiskScorer_init = \<lparr>weights =
     [(''websiteTrust'', 0.25),
      (''urlPhishing'', 0.20),
      (''financialIntent'', 0.30),
      (''otpMisuse'', 0.15),
      (''upiScam'', 0.10)]\<rparr>"

record risk_result =
  risk_score :: real
  risk_level :: string
  explanation :: string
  confidence :: real

type_synonym signals = "real option dict"

text \<open>The normalisation inside the loop: the trust score is inverted (high trust is
  low risk), every other signal passes through.\<close>

definition normalized :: "string \<Rightarrow> real \<Rightarrow> real" where
  "normalized signal_name signal_value =
     (if signal_name = ''websiteTrust'' then 1 - signal_value else signal_value)"

text \<open>The loop over \<open>self.weights.items()\<close>, with the two accumulators
  \<open>total_score\<close> and \<open>total_weight\<close>.\<close>

fun weights_loop :: "signals \<Rightarrow> real dict \<Rightarrow> real \<times> real \<Rightarrow> real \<times> real" where
  "weights_loop sigs [] acc = acc"
| "weights_loop sigs ((signal_name, weight) # rest) (total_score, total_weight) =
     (case dict_get sigs signal_name of
        None \<Rightarrow> weights_loop sigs rest (total_score, total_weight)
      | Some signal_value \<Rightarrow>
          weights_loop sigs rest
            (total_score + normalized signal_name signal_value * weight,
             total_weight + weight))"

text \<open>The warning sign U+26A0 U+FE0F that opens the two warnings, as its UTF-8 bytes.\<close>

definition warning_sign :: string where
  "warning_sign = map char_of [226, 154, 160, 239, 184, 143 :: nat]"

definition generate_explanation :: "string \<Rightarrow> signals \<Rightarrow> py_error + string" where
  "generate_explanation level sigs =
     (if level = ''high'' then
        (case py_gt (dict_get_default sigs ''upiScam'' 0) 0.7 of
           Inl e \<Rightarrow> Inl e
         | Inr upi \<Rightarrow>
            if upi then
              Inr (warning_sign @ '' HIGH RISK - DO NOT PROCEED. ''
                   @ ''This appears to be a UPI scam. ''
                   @ ''We strongly recommend leaving this website.'')
            else
             (case py_gt (dict_get_default sigs ''otpMisuse'' 0) 0.7 of
                Inl e \<Rightarrow> Inl e
              | Inr otp \<Rightarrow>
                 if otp then
                   Inr (warning_sign @ '' HIGH RISK - DO NOT PROCEED. ''
                        @ ''This site is asking for sensitive information but is not trustworthy. ''
                        @ ''We strongly recommend leaving this website.'')
                 else
                  (case py_gt (dict_get_default sigs ''urlPhishing'' 0) 0.7 of
                     Inl e \<Rightarrow> Inl e
                   | Inr url \<Rightarrow>
                      if url then
                        Inr (warning_sign @ '' HIGH RISK - DO NOT PROCEED. ''
                             @ ''The URL shows strong phishing indicators. ''
                             @ ''We strongly recommend leaving this website.'')
                      else
                        Inr (warning_sign @ '' HIGH RISK - DO NOT PROCEED. ''
                             @ ''We strongly recommend leaving this website.''))))
      else if level = ''medium'' then
        (case py_gt (dict_get_default sigs ''financialIntent'' 0) 0.5 of
           Inl e \<Rightarrow> Inl e
         | Inr financial \<Rightarrow>
            if financial then
              Inr (warning_sign @ '' CAUTION ADVISED. ''
                   @ ''This page involves financial activity. ''
                   @ ''Verify the website authenticity before proceeding.'')
            else
              Inr (warning_sign @ '' CAUTION ADVISED. ''
                   @ ''Verify the website authenticity before proceeding.''))
      else Inl UnboundLocalError)"

text \<open>The number of values of the dictionary that are not \<open>None\<close>, under any key.\<close>

definition available_signals :: "signals \<Rightarrow> nat" where
  "available_signals sigs = length (filter (\<lambda>v. v \<noteq> None) (map snd sigs))"

definition calculate :: "RiskScorer \<Rightarrow> signals \<Rightarrow> py_error + risk_result" where
  "calculate self sigs =
     (case weights_loop sigs (weights self) (0, 0) of (total_score, total_weight) \<Rightarrow>
      (let score0 = (if total_weight > 0 then total_score / total_weight else 0) in
       case py_gt (dict_get_default sigs ''financialIntent'' 0) 0.5 of
         Inl e \<Rightarrow> Inl e
       | Inr amplify \<Rightarrow>
         (let score = (if amplify then min (score0 * 1.3) 1 else score0) in
          case (if score \<ge> 0.7 then
                  (case generate_explanation ''high'' sigs of
                     Inl e \<Rightarrow> Inl e | Inr text \<Rightarrow> Inr (''high'', text))
                else if score \<ge> 0.4 then
                  (case generate_explanation ''medium'' sigs of
                     Inl e \<Rightarrow> Inl e | Inr text \<Rightarrow> Inr (''medium'', text))
                else Inr (''low'', ''This page appears safe based on our analysis.'')) of
            Inl e \<Rightarrow> Inl e
          | Inr (level, text) \<Rightarrow>
              (if length (weights self) = 0 then Inl ZeroDivisionError
               else Inr \<lparr>risk_score = score, risk_level = level, explanation = text,
                         confidence = real (available_signals sigs)
                                      / real (length (weights self))\<rparr>))))"


subsection \<open>The risk scorer in double precision\<close>











section \<open>Strings and regular expressions\<close>

text \<open>
  Strings are ASCII here: a character is a byte, and the case conversions and character
  classes are those of Python on ASCII text.
\<close>

definition ascii_uppercase :: string where
  "ascii_uppercase = ''ABCDEFGHIJKLMNOPQRSTUVWXYZ''"

definition ascii_lowercase :: string where
  "ascii_lowercase = ''abcdefghijklmnopqrstuvwxyz''"

definition digits :: string where
  "digits = ''0123456789''"

definition lower_char :: "char \<Rightarrow> char" where
  "lower_char c = (case map_of (zip ascii_uppercase ascii_lowercase) c of
                     None \<Rightarrow> c | Some l \<Rightarrow> l)"

definition upper_char :: "char \<Rightarrow> char" where
  "upper_char c = (case map_of (zip ascii_lowercase ascii_uppercase) c of
                     None \<Rightarrow> c | Some u \<Rightarrow> u)"

definition lower :: "string \<Rightarrow> string" where
  "lower s = map lower_char s"

definition upper :: "string \<Rightarrow> string" where
  "upper s = map upper_char s"

definition isdigit :: "char \<Rightarrow> bool" where
  "isdigit c = (c \<in> set digits)"

definition isalnum :: "char \<Rightarrow> bool" where
  "isalnum c = (c \<in> set (ascii_lowercase @ ascii_uppercase @ digits))"

text \<open>The whitespace that \<open>str.strip()\<close> removes, among the ASCII characters.\<close>

definition isspace :: "char \<Rightarrow> bool" where
  "isspace c = (of_char c \<in> set [9, 10, 11, 12, 13, 28, 29, 30, 31, 32 :: nat])"

definition startswith :: "string \<Rightarrow> string \<Rightarrow> bool" where
  "startswith s p = (take (length p) s = p)"

text \<open>\<open>sub in s\<close>.\<close>

fun contains :: "string \<Rightarrow> string \<Rightarrow> bool" where
  "contains sub [] = (sub = [])"
| "contains sub (c # cs) = (startswith (c # cs) sub \<or> contains sub cs)"

text \<open>\<open>s.split(sep)\<close> for a separator of one character.\<close>

fun split_char :: "char \<Rightarrow> string \<Rightarrow> string list" where
  "split_char sep [] = [[]]"
| "split_char sep (c # cs) =
     (if c = sep then [] # split_char sep cs
      else (case split_char sep cs of [] \<Rightarrow> [[c]] | piece # pieces \<Rightarrow> (c # piece) # pieces))"

text \<open>\<open>s.replace(old, '')\<close>: the occurrences of \<open>old\<close> are removed from left to right,
  without overlap.\<close>

function remove_all :: "string \<Rightarrow> string \<Rightarrow> string" where
  "remove_all old [] = []"
| "remove_all old (c # cs) =
     (if old \<noteq> [] \<and> startswith (c # cs) old
      then remove_all old (drop (length old) (c # cs))
      else c # remove_all old cs)"
  by pat_completeness auto
termination
  by (relation "measure (\<lambda>(old, s). length s)") (auto simp: neq_Nil_conv)

definition strip :: "string \<Rightarrow> string" where
  "strip s = rev (dropWhile isspace (rev (dropWhile isspace s)))"

text \<open>\<open>', '.join(xs)\<close>.\<close>

fun join :: "string \<Rightarrow> string list \<Rightarrow> string" where
  "join sep [] = []"
| "join sep [x] = x"
| "join sep (x # y # ys) = x @ sep @ join sep (y # ys)"

text \<open>
  The fragment of Python's regular expressions that the detectors use: literal text,
  \<open>\d{m,n}\<close> and \<open>\d+\<close> (greedy), concatenation, alternation (the left branch first)
  and the greedy optional group \<open>(?:r)?\<close>. \<open>rmatch\<close> lists, in the order in which a
  backtracking matcher tries them, the rests of the text after each way of matching the
  expression at the start of the text; \<open>re_search\<close> is \<open>re.search(...).group(0)\<close>, the
  first way at the leftmost position that has one. The flag is \<open>re.IGNORECASE\<close>.
\<close>

datatype regex =
  Lit string
  | Digits nat "nat option"
  | Cat regex regex
  | Alt regex regex
  | Opt regex

fun rmatch :: "bool \<Rightarrow> regex \<Rightarrow> string \<Rightarrow> string list" where
  "rmatch ic (Lit l) s =
     (if (if ic then lower (take (length l) s) = lower l else take (length l) s = l)
      then [drop (length l) s] else [])"
| "rmatch ic (Digits lo hi) s =
     (let avail = length (takeWhile isdigit s);
          most = (case hi of None \<Rightarrow> avail | Some h \<Rightarrow> min h avail)
      in map (\<lambda>n. drop n s) (rev [lo ..< Suc most]))"
| "rmatch ic (Cat a b) s = concat (map (rmatch ic b) (rmatch ic a s))"
| "rmatch ic (Alt a b) s = rmatch ic a s @ rmatch ic b s"
| "rmatch ic (Opt a) s = rmatch ic a s @ [s]"

fun re_search :: "bool \<Rightarrow> regex \<Rightarrow> string \<Rightarrow> string option" where
  "re_search ic r [] = (case rmatch ic r [] of [] \<Rightarrow> None | rest # _ \<Rightarrow> Some [])"
| "re_search ic r (c # cs) =
     (case rmatch ic r (c # cs) of
        [] \<Rightarrow> re_search ic r cs
      | rest # _ \<Rightarrow> Some (take (length (c # cs) - length rest) (c # cs)))"

fun seq :: "regex list \<Rightarrow> regex" where
  "seq [] = Lit []"
| "seq [r] = r"
| "seq (r # rs) = Cat r (seq rs)"

fun alt :: "regex list \<Rightarrow> regex" where
  "alt [] = Lit []"
| "alt [r] = r"
| "alt (r # rs) = Alt r (alt rs)"

section \<open>Domain checker (utils/domain\_checker.py)\<close>

text \<open>
  A naive \<open>datetime\<close> is the number of microseconds since a fixed origin, so that the
  \<open>days\<close> of a difference of two of them is the quotient, rounded down, by the
  microseconds of a day. The WHOIS query and the clock are the two things
  \<open>check_age\<close> reads from outside; they are arguments here. \<open>creation_date\<close> of a
  WHOIS entry is \<open>None\<close>, one date or a list of dates. \<open>registration_date\<close> in the result
  stands for the ISO rendering of the date it holds.
\<close>

record DomainChecker =
  new_domain_threshold_days :: int

definition DomainChecker_init :: DomainChecker where
  "DomainChecker_init = \<lparr>new_domain_threshold_days = 90\<rparr>"

datatype creation = NoDate | OneDate int | DateList "int list"

record whois_entry =
  creation_date :: creation
  whois_registrar :: "string option option"

record age_result =
  age_days :: int
  is_new :: bool
  registration_date :: "int option"
  registrar :: "string option"

definition microseconds_per_day :: int where
  "microseconds_per_day = 86400000000"

definition timedelta_days :: "int \<Rightarrow> int \<Rightarrow> int" where
  "timedelta_days later earlier = (later - earlier) div microseconds_per_day"

definition clean_domain :: "string \<Rightarrow> string" where
  "clean_domain domain =
     (let d1 = remove_all ''https://'' (remove_all ''http://'' domain);
          d2 = remove_all ''www.'' d1;
          d3 = (if CHR ''/'' \<in> set d2 then hd (split_char CHR ''/'' d2) else d2);
          d4 = (if CHR '':'' \<in> set d3 then hd (split_char CHR '':'' d3) else d3)
      in strip d4)"

text \<open>\<open>creation_date[0]\<close> when the entry holds a list: an empty list raises.\<close>

definition first_date :: "creation \<Rightarrow> py_error + int option" where
  "first_date c =
     (case c of
        NoDate \<Rightarrow> Inr None
      | OneDate d \<Rightarrow> Inr (Some d)
      | DateList ds \<Rightarrow> (case ds of [] \<Rightarrow> Inl IndexError | d # _ \<Rightarrow> Inr (Some d)))"

text \<open>The body of the \<open>try\<close> block, on the entry that the WHOIS query returned.\<close>

definition age_of_entry ::
  "DomainChecker \<Rightarrow> int \<Rightarrow> whois_entry \<Rightarrow> age_result \<Rightarrow> py_error + age_result" where
  "age_of_entry self now w result =
     (case first_date (creation_date w) of
        Inl e \<Rightarrow> Inl e
      | Inr None \<Rightarrow> Inr result
      | Inr (Some created) \<Rightarrow>
          (let days = timedelta_days now created in
           Inr (result\<lparr>age_days := days,
                       registration_date := Some created,
                       is_new := days < new_domain_threshold_days self,
                       registrar := (case whois_registrar w of
                                       None \<Rightarrow> registrar result
                                     | Some r \<Rightarrow> r)\<rparr>)))"

definition check_age ::
  "DomainChecker \<Rightarrow> (string \<Rightarrow> py_error + whois_entry) \<Rightarrow> int \<Rightarrow> string \<Rightarrow> age_result" where
  "check_age self whois now domain =
     (let result = \<lparr>age_days = -1, is_new = False, registration_date = None,
                    registrar = None\<rparr>
      in case (case whois (clean_domain domain) of
                 Inl e \<Rightarrow> Inl e
               | Inr w \<Rightarrow> age_of_entry self now w result) of
           Inl e \<Rightarrow> result\<lparr>age_days := -1, is_new := False\<rparr>
         | Inr result' \<Rightarrow> result')"

section \<open>URL phishing detector (detectors/url\_phishing\_detector.py)\<close>

text \<open>
  The values that the feature dictionary holds. \<open>features[k]\<close> raises \<open>KeyError\<close> on a
  missing key.
\<close>

datatype pyval = VInt int | VBool bool | VFloat real | VStr string

definition getitem :: "pyval dict \<Rightarrow> string \<Rightarrow> py_error + pyval" where
  "getitem d k = (case map_of d k of None \<Rightarrow> Inl KeyError | Some v \<Rightarrow> Inr v)"

definition truthy :: "pyval \<Rightarrow> bool" where
  "truthy v = (case v of VInt n \<Rightarrow> n \<noteq> 0 | VBool b \<Rightarrow> b | VFloat x \<Rightarrow> x \<noteq> 0
                       | VStr t \<Rightarrow> t \<noteq> [])"

text \<open>\<open>v > c\<close> for a number \<open>c\<close>; a string on the left raises \<open>TypeError\<close>.\<close>

definition val_gt :: "pyval \<Rightarrow> real \<Rightarrow> py_error + bool" where
  "val_gt v c = (case v of VInt n \<Rightarrow> Inr (c < real_of_int n)
                         | VBool b \<Rightarrow> Inr (c < (if b then 1 else 0))
                         | VFloat x \<Rightarrow> Inr (c < x)
                         | VStr t \<Rightarrow> Inl TypeError)"

subsection \<open>urllib.parse.urlparse\<close>

text \<open>
  \<open>urlparse\<close> belongs to the Python standard library. The definition follows
  \<open>urlsplit\<close> and \<open>urlparse\<close> of CPython 3 for a \<open>str\<close> argument and keeps the two
  components that the detector reads, \<open>netloc\<close> and \<open>path\<close>: leading control characters
  and spaces are dropped and tab, CR and LF removed; a scheme is split off at the first
  colon; after \<open>//\<close> the authority runs to the first of \<open>/\<close>, \<open>?\<close>, \<open>#\<close>; an unmatched
  square bracket in the authority raises \<open>ValueError\<close>; fragment, query and parameters
  are cut from the path. Releases from 3.11.4 on also validate a host in square
  brackets and raise \<open>ValueError\<close> for one that is no IPv6 or IPvFuture address (such as
  \<open>http://[1.2.3.4]/\<close>); that validation is not part of this definition, which returns
  on such a string. The definition is evaluated below on two strings only, \<open>http://[\<close>
  and \<open>http://192.168.1.1/login?x=1\<close>, on which the releases agree; what is proved
  for every URL depends only on whether \<open>urlparse\<close> raises.
\<close>

record parse_result =
  netloc :: string
  path :: string

definition scheme_chars :: string where
  "scheme_chars = ascii_lowercase @ ascii_uppercase @ digits @ ''+-.''"

definition uses_params :: "string list" where
  "uses_params = ['''', ''ftp'', ''hdl'', ''prospero'', ''http'', ''imap'', ''https'',
                  ''shttp'', ''rtsp'', ''rtspu'', ''sip'', ''sips'', ''mms'', ''sftp'',
                  ''tel'']"

definition splitnetloc :: "string \<Rightarrow> string \<times> string" where
  "splitnetloc url =
     (let rest = drop 2 url;
          domain = takeWhile (\<lambda>c. c \<notin> set ''/?#'') rest
      in (domain, drop (length domain) rest))"

definition splitparams :: "string \<Rightarrow> string" where
  "splitparams url =
     (if CHR ''/'' \<in> set url then
        (let tail = rev (takeWhile (\<lambda>c. c \<noteq> CHR ''/'') (rev url));
             front = take (length url - length tail) url
         in if CHR '';'' \<in> set tail
            then front @ takeWhile (\<lambda>c. c \<noteq> CHR '';'') tail else url)
      else takeWhile (\<lambda>c. c \<noteq> CHR '';'') url)"

definition urlparse :: "string \<Rightarrow> py_error + parse_result" where
  "urlparse url0 =
     (let url1 = filter (\<lambda>c. of_char c \<notin> set [9, 10, 13 :: nat])
                   (dropWhile (\<lambda>c. of_char c \<le> (32 :: nat)) url0);
          pre = takeWhile (\<lambda>c. c \<noteq> CHR '':'') url1;
          has_scheme = (length pre < length url1 \<and> pre \<noteq> []
                        \<and> hd pre \<in> set (ascii_lowercase @ ascii_uppercase)
                        \<and> list_all (\<lambda>c. c \<in> set scheme_chars) pre);
          scheme = (if has_scheme then lower pre else []);
          url2 = (if has_scheme then drop (Suc (length pre)) url1 else url1);
          split = (if take 2 url2 = ''//'' then splitnetloc url2 else ([], url2));
          domain = fst split;
          url3 = snd split
      in if (CHR ''['' \<in> set domain \<and> CHR '']'' \<notin> set domain)
            \<or> (CHR '']'' \<in> set domain \<and> CHR ''['' \<notin> set domain)
         then Inl ValueError
         else
           (let url4 = takeWhile (\<lambda>c. c \<noteq> CHR ''#'') url3;
                url5 = takeWhile (\<lambda>c. c \<noteq> CHR ''?'') url4
            in Inr \<lparr>netloc = domain,
                    path = (if scheme \<in> set uses_params \<and> CHR '';'' \<in> set url5
                            then splitparams url5 else url5)\<rparr>))"

subsection \<open>The detector\<close>

text \<open>
  \<open>self.model\<close> is the optional classifier: a function from the feature vector to the
  phishing probability, which may raise. \<open>__init__\<close> leaves it \<open>None\<close>.
\<close>

record URLPhishingDetector =
  model :: "(pyval list \<Rightarrow> py_error + real) option"
  suspicious_tlds :: "string list"

definition URLPhishingDetector_init :: URLPhishingDetector where
  "URLPhishingDetector_init = \<lparr>model = None, suspicious_tlds =
     [''tk'', ''ml'', ''ga'', ''cf'', ''gq'', ''pw'', ''cc'', ''top'',
      ''work'', ''click'', ''loan'', ''racing'', ''men'', ''download'']\<rparr>"

text \<open>\<open>Counter(text)\<close>: the number of occurrences of each character, in the order of
  first occurrence.\<close>

definition counter_add :: "char \<Rightarrow> (char \<times> nat) list \<Rightarrow> (char \<times> nat) list" where
  "counter_add c m = (case map_of m c of None \<Rightarrow> m @ [(c, 1)]
                                       | Some n \<Rightarrow> AList.update c (n + 1) m)"

definition Counter :: "string \<Rightarrow> (char \<times> nat) list" where
  "Counter text = fold counter_add text []"

definition calculate_entropy :: "string \<Rightarrow> real" where
  "calculate_entropy text =
     (if text = [] then 0
      else fold (\<lambda>count entropy.
                   entropy - (real count / real (length text))
                             * log 2 (real count / real (length text)))
             (map snd (Counter text)) 0)"

definition get_default_features :: "pyval dict" where
  "get_default_features =
     [(''length'', VInt 0),
      (''num_dots'', VInt 0),
      (''has_ip'', VBool False),
      (''suspicious_tld'', VBool False),
      (''domain_entropy'', VFloat 0)]"

text \<open>The pattern \<open>\d{1,3}\.\d{1,3}\.\d{1,3}\.\d{1,3}\<close>.\<close>

definition ip_pattern :: regex where
  "ip_pattern = seq [Digits 1 (Some 3), Lit ''.'', Digits 1 (Some 3), Lit ''.'',
                     Digits 1 (Some 3), Lit ''.'', Digits 1 (Some 3)]"

definition extract_features :: "URLPhishingDetector \<Rightarrow> string \<Rightarrow> pyval dict" where
  "extract_features self url =
     (case urlparse url of
        Inl e \<Rightarrow> get_default_features
      | Inr parsed \<Rightarrow>
         (let domain = netloc parsed;
              tld = (if CHR ''.'' \<in> set domain then last (split_char CHR ''.'' domain)
                     else [])
          in [(''length'', VInt (int (length url))),
              (''domain_length'', VInt (int (length domain))),
              (''path_length'', VInt (int (length (path parsed)))),
              (''num_dots'', VInt (int (count_list url CHR ''.''))),
              (''num_hyphens'', VInt (int (count_list url CHR ''-''))),
              (''num_underscores'', VInt (int (count_list url CHR ''_''))),
              (''num_slashes'', VInt (int (count_list url CHR ''/''))),
              (''num_questionmarks'', VInt (int (count_list url CHR ''?''))),
              (''num_equals'', VInt (int (count_list url CHR ''=''))),
              (''num_at'', VInt (int (count_list url CHR ''@''))),
              (''num_ampersands'', VInt (int (count_list url CHR ''&''))),
              (''has_ip'', VBool (re_search False ip_pattern domain \<noteq> None)),
              (''num_subdomains'',
                 VInt (if CHR ''.'' \<in> set domain
                       then int (length (split_char CHR ''.'' domain)) - 2 else 0)),
              (''tld'', VStr tld),
              (''suspicious_tld'', VBool (lower tld \<in> set (suspicious_tlds self))),
              (''has_punycode'', VBool (contains ''xn--'' domain)),
              (''has_port'', VBool (CHR '':'' \<in> set (netloc parsed))),
              (''domain_entropy'', VFloat (calculate_entropy domain)),
              (''special_chars'',
                 VInt (int (length (filter (\<lambda>c. \<not> isalnum c \<and> c \<noteq> CHR ''.''
                                                  \<and> c \<noteq> CHR ''-'') domain))))]))"

text \<open>\<open>features.get(feat, 0)\<close> for each feature of the fixed order, booleans as
  integers.\<close>

definition features_to_vector :: "pyval dict \<Rightarrow> pyval list" where
  "features_to_vector features =
     map (\<lambda>feat. case map_of features feat of
                    None \<Rightarrow> VInt 0
                  | Some (VBool b) \<Rightarrow> VInt (if b then 1 else 0)
                  | Some v \<Rightarrow> v)
       [''length'', ''domain_length'', ''path_length'', ''num_dots'', ''num_hyphens'',
        ''num_subdomains'', ''has_ip'', ''suspicious_tld'', ''domain_entropy'']"

text \<open>
  A reason is a formatted string: the pieces of literal text and the values formatted
  into it. The state of the scoring rules is the score and the reasons so far.
\<close>

datatype piece = Text string | Val pyval

type_synonym reason = "piece list"

definition bind :: "py_error + 'a \<Rightarrow> ('a \<Rightarrow> py_error + 'b) \<Rightarrow> py_error + 'b" where
  "bind m f = (case m of Inl e \<Rightarrow> Inl e | Inr x \<Rightarrow> f x)"

text \<open>One rule \<open>if cond: score += inc; reasons.append(reason)\<close>. The reason is
  evaluated only when the condition holds.\<close>

definition rule ::
  "py_error + bool \<Rightarrow> real \<Rightarrow> py_error + reason \<Rightarrow> real \<times> reason list
     \<Rightarrow> py_error + real \<times> reason list" where
  "rule cond inc reason st =
     bind cond (\<lambda>holds.
       if holds then bind reason (\<lambda>r. Inr (fst st + inc, snd st @ [r])) else Inr st)"

definition url_rules :: "pyval dict \<Rightarrow> py_error + real \<times> reason list" where
  "url_rules features =
     bind (rule (bind (getitem features ''length'') (\<lambda>v. val_gt v 75)) 0.2
             (Inr [Text ''Unusually long URL'']) (0, [])) (\<lambda>st.
     bind (rule (bind (getitem features ''has_ip'') (\<lambda>v. Inr (truthy v))) 0.3
             (Inr [Text ''URL contains IP address'']) st) (\<lambda>st.
     bind (rule (bind (getitem features ''num_subdomains'') (\<lambda>v. val_gt v 3)) 0.25
             (bind (getitem features ''num_subdomains'') (\<lambda>v.
                Inr [Text ''Too many subdomains ('', Val v, Text '')''])) st) (\<lambda>st.
     bind (rule (bind (getitem features ''num_at'') (\<lambda>v. val_gt v 0)) 0.25
             (Inr [Text ''URL contains @ symbol (redirect)'']) st) (\<lambda>st.
     bind (rule (bind (getitem features ''num_hyphens'') (\<lambda>v. val_gt v 3)) 0.15
             (Inr [Text ''Excessive hyphens in URL'']) st) (\<lambda>st.
     bind (rule (bind (getitem features ''suspicious_tld'') (\<lambda>v. Inr (truthy v))) 0.2
             (bind (getitem features ''tld'') (\<lambda>v.
                Inr [Text ''Suspicious domain extension: .'', Val v])) st) (\<lambda>st.
     bind (rule (bind (getitem features ''has_punycode'') (\<lambda>v. Inr (truthy v))) 0.25
             (Inr [Text ''Punycode detected (possible homograph attack)'']) st) (\<lambda>st.
     rule (bind (getitem features ''domain_entropy'') (\<lambda>v. val_gt v 4.5)) 0.2
             (Inr [Text ''Domain appears randomly generated'']) st)))))))"

text \<open>The three entries that the results of the URL and the email detector share.\<close>

record detection =
  phishing_score :: real
  is_phishing :: bool
  reasons :: "reason list"

record url_result = detection +
  features :: "pyval dict"

definition analyze_url :: "URLPhishingDetector \<Rightarrow> string \<Rightarrow> py_error + url_result" where
  "analyze_url self url =
     (let features = extract_features self url in
      bind (url_rules features) (\<lambda>(score, reasons).
        (let blended = (case model self of
                          None \<Rightarrow> score
                        | Some predict \<Rightarrow>
                            (case predict (features_to_vector features) of
                               Inl e \<Rightarrow> score
                             | Inr ml_score \<Rightarrow> score * 0.7 + ml_score * 0.3))
         in Inr \<lparr>phishing_score = min blended 1,
                 is_phishing = (min blended 1 > 0.6),
                 reasons = reasons,
                 features = features\<rparr>)))"

section \<open>Email phishing detector (detectors/email\_phishing\_detector.py)\<close>

text \<open>
  \<open>self.classifier\<close> is the optional sentiment model: a function from a text to the
  label and score of its first result, which may raise; it is \<open>None\<close> when the model
  could not be loaded. The pattern lists are those of \<open>__init__\<close>, each regular
  expression written as its syntax tree.
\<close>

record EmailPhishingDetector =
  classifier :: "(string \<Rightarrow> py_error + string \<times> real) option"
  urgency_patterns :: "regex list"
  fear_patterns :: "regex list"
  reward_patterns :: "regex list"
  bank_keywords :: "string list"

definition EmailPhishingDetector_init ::
  "(string \<Rightarrow> py_error + string \<times> real) option \<Rightarrow> EmailPhishingDetector" where
  "EmailPhishingDetector_init loaded =
     \<lparr>classifier = loaded,
      urgency_patterns =
        [seq [Lit ''urgent'', Opt (Lit ''ly'')],
         seq [Lit ''immediate'', Opt (Lit ''ly'')],
         Lit ''act now'',
         seq [Lit ''within '', Digits 1 None, Lit '' hour'', Opt (Lit ''s'')],
         seq [Lit ''expire'', Opt (Lit ''s''), Lit '' '',
              alt [Lit ''today'', Lit ''soon'', Lit ''now'']],
         Lit ''limited time'',
         seq [Lit ''account '', Opt (alt [Lit ''will be '', Lit ''has been '']),
              alt [Lit ''suspended'', Lit ''closed'', Lit ''blocked'']],
         seq [Lit ''verify '', alt [Lit ''immediately'', Lit ''now'', Lit ''your account'']],
         Lit ''action required'',
         Lit ''security alert'',
         Lit ''unusual activity''],
      fear_patterns =
        [Lit ''blocked'',
         Lit ''frozen'',
         Lit ''compromised'',
         Lit ''unauthorized'',
         Lit ''suspicious activity'',
         seq [Lit ''fraud'', Opt (Lit ''ulent''), Lit '' '',
              alt [Lit ''activity'', Lit ''transaction'']],
         Lit ''legal action'',
         Lit ''lose access'',
         seq [Lit ''permanent'', Opt (Lit ''ly'')],
         seq [Lit ''cancel'', Opt (alt [Lit ''led'', Lit ''lation''])]],
      reward_patterns =
        [Lit ''won'',
         Lit ''winner'',
         Lit ''prize'',
         Lit ''reward'',
         seq [Lit ''cash'', Opt (Lit '' ''), Lit ''back''],
         Lit ''free'',
         seq [Lit ''claim '', alt [Lit ''now'', Lit ''your'']],
         Lit ''congratulations'',
         seq [Lit ''you'', alt [Lit (CHR 0x27 # ''ve''), Lit '' have''],
              Lit '' been selected''],
         Lit ''lottery'',
         Lit ''bonus'',
         Lit ''gift card''],
      bank_keywords =
        [''bank'', ''banking'', ''account'', ''netbanking'', ''internet banking'',
         ''upi'', ''paytm'', ''phonepe'', ''gpay'', ''google pay'',
         ''transaction'', ''payment'', ''otp'', ''cvv'', ''debit'', ''credit'']\<rparr>"

fun find_patterns :: "string \<Rightarrow> regex list \<Rightarrow> string list" where
  "find_patterns text [] = []"
| "find_patterns text (pattern # patterns) =
     (case re_search True pattern text of
        None \<Rightarrow> find_patterns text patterns
      | Some matched \<Rightarrow> matched # find_patterns text patterns)"

record mismatch =
  claimed :: string
  actual :: string
  expected :: string

definition banks :: "(string \<times> string list) list" where
  "banks = [(''sbi'', [''sbi.co.in'']),
            (''hdfc'', [''hdfcbank.com'']),
            (''icici'', [''icicibank.com'']),
            (''axis'', [''axisbank.com'']),
            (''paytm'', [''paytm.com'']),
            (''phonepe'', [''phonepe.com''])]"

fun banks_loop :: "string \<Rightarrow> string \<Rightarrow> (string \<times> string list) list \<Rightarrow> mismatch option" where
  "banks_loop text sender_domain [] = None"
| "banks_loop text sender_domain ((bank_name, valid_domains) # rest) =
     (if contains bank_name text
         \<and> \<not> (\<exists>valid \<in> set valid_domains. contains valid sender_domain)
      then Some \<lparr>claimed = upper bank_name, actual = sender_domain,
                 expected = hd valid_domains\<rparr>
      else banks_loop text sender_domain rest)"

definition check_sender_domain_mismatch :: "string \<Rightarrow> string \<Rightarrow> mismatch option" where
  "check_sender_domain_mismatch text sender_domain = banks_loop text sender_domain banks"

record email_result = detection +
  pattern_matches :: "string list dict"

text \<open>
  The step \<open>if matches: score += inc; reasons.append(reason)\<close> of the email
  detector, on the score and the reasons so far.
\<close>

definition add_if :: "bool \<Rightarrow> real \<Rightarrow> reason \<Rightarrow> real \<times> reason list \<Rightarrow> real \<times> reason list" where
  "add_if holds inc reason st =
     (if holds then (fst st + inc, snd st @ [reason]) else st)"

text \<open>
  \<open>pattern_matches\<close> starts with four empty lists and a list of matches is stored
  when it is not empty, so each entry is the list of matches in both cases. The sender
  argument is not read.
\<close>

definition analyze_email ::
  "EmailPhishingDetector \<Rightarrow> string \<Rightarrow> string \<Rightarrow> string option \<Rightarrow> string option
     \<Rightarrow> email_result" where
  "analyze_email self subject body sender sender_domain =
     (let text = lower (subject @ '' '' @ body);
          urgency_matches = find_patterns text (urgency_patterns self);
          st1 = add_if (urgency_matches \<noteq> []) 0.3
                  [Text ''Urgency tactics detected: '',
                   Text (join '', '' (take 2 urgency_matches))] (0, []);
          fear_matches = find_patterns text (fear_patterns self);
          st2 = add_if (fear_matches \<noteq> []) 0.3
                  [Text ''Fear/threat language: '',
                   Text (join '', '' (take 2 fear_matches))] st1;
          reward_matches = find_patterns text (reward_patterns self);
          st3 = add_if (reward_matches \<noteq> []) 0.25
                  [Text ''Reward/prize language: '',
                   Text (join '', '' (take 2 reward_matches))] st2;
          financial_keywords = filter (\<lambda>kw. contains kw text) (bank_keywords self);
          st4 = (if financial_keywords \<noteq> []
                 then (fst st3 + 0.15,
                       snd st3 @ (if length financial_keywords \<ge> 3
                                  then [[Text ''Multiple financial keywords detected'']]
                                  else []))
                 else st3);
          st5 = (case sender_domain of
                   None \<Rightarrow> st4
                 | Some d \<Rightarrow>
                     if d = [] then st4
                     else (case check_sender_domain_mismatch text d of
                             None \<Rightarrow> st4
                           | Some m \<Rightarrow>
                               (fst st4 + 0.4,
                                snd st4 @ [[Text ''Sender domain mismatch: claims to be '',
                                            Text (claimed m), Text '' but from '', Text d]])));
          st6 = (case classifier self of
                   None \<Rightarrow> st5
                 | Some classify \<Rightarrow>
                     (case classify (subject @ '' '' @ take 200 body) of
                        Inl e \<Rightarrow> st5
                      | Inr (label, ml_confidence) \<Rightarrow>
                          add_if (label = ''NEGATIVE'' \<and> ml_confidence > 0.7) 0.2
                            [Text ''ML model detected suspicious content''] st5))
      in \<lparr>phishing_score = min (fst st6) 1,
          is_phishing = (min (fst st6) 1 > 0.5),
          reasons = snd st6,
          pattern_matches = [(''urgency'', urgency_matches), (''fear'', fear_matches),
                             (''reward'', reward_matches),
                             (''financial'', financial_keywords)]\<rparr>)"

section \<open>Auxiliary notions for stating and proving the properties\<close>

text \<open>
  The two sums that the loop of \<open>calculate\<close> accumulates, term by term, the condition
  of the amplification when its comparison does not raise, and the score that
  \<open>calculate\<close> returns in terms of them.
\<close>

definition score_term :: "signals \<Rightarrow> string \<times> real \<Rightarrow> real" where
  "score_term sigs p =
     (case dict_get sigs (fst p) of None \<Rightarrow> 0 | Some v \<Rightarrow> normalized (fst p) v * snd p)"

definition weight_term :: "signals \<Rightarrow> string \<times> real \<Rightarrow> real" where
  "weight_term sigs p = (case dict_get sigs (fst p) of None \<Rightarrow> 0 | Some v \<Rightarrow> snd p)"

definition amplify :: "signals \<Rightarrow> bool" where
  "amplify sigs = (case dict_get_default sigs ''financialIntent'' 0 of
                     None \<Rightarrow> False | Some x \<Rightarrow> 0.5 < x)"

definition average :: "RiskScorer \<Rightarrow> signals \<Rightarrow> real" where
  "average self sigs =
     (if sum_list (map (weight_term sigs) (weights self)) > 0
      then sum_list (map (score_term sigs) (weights self))
           / sum_list (map (weight_term sigs) (weights self))
      else 0)"

definition fused_score :: "RiskScorer \<Rightarrow> signals \<Rightarrow> real" where
  "fused_score self sigs =
     (if amplify sigs then min (average self sigs * 1.3) 1 else average self sigs)"

text \<open>Every value of the dictionary that is not \<open>None\<close> lies in [0,1]; no weight is
  negative.\<close>

definition in_unit_range :: "signals \<Rightarrow> bool" where
  "in_unit_range sigs = (\<forall>v \<in> set (map snd sigs). case v of None \<Rightarrow> True | Some x \<Rightarrow> 0 \<le> x \<and> x \<le> 1)"

definition nonneg_weights :: "RiskScorer \<Rightarrow> bool" where
  "nonneg_weights self = (\<forall>p \<in> set (weights self). 0 \<le> snd p)"


text \<open>Three dictionaries of signals: the five names all stored as \<open>None\<close>; eight keys
  with six values that are not \<open>None\<close>; two low signals.\<close>

definition all_absent :: signals where
  "all_absent = [(''websiteTrust'', None), (''urlPhishing'', None), (''financialIntent'', None),
                 (''otpMisuse'', None), (''upiScam'', None)]"

definition crowded_signals :: signals where
  "crowded_signals =
     [(''websiteTrust'', None), (''urlPhishing'', Some 0), (''financialIntent'', Some 0),
      (''otpMisuse'', Some 0), (''upiScam'', Some 0), (''domainAge'', Some 0),
      (''emailPhishing'', Some 0), (''sslValid'', None)]"

definition quiet_signals :: signals where
  "quiet_signals = [(''urlPhishing'', Some 0.2), (''financialIntent'', Some 0.4)]"



text \<open>Three WHOIS answers: a domain whose creation date lies one hour after the clock
  reading 0, a domain created at 0, and a failing lookup.\<close>

definition future_whois :: "string \<Rightarrow> py_error + whois_entry" where
  "future_whois domain =
     Inr \<lparr>creation_date = OneDate 3600000000, whois_registrar = Some (Some ''Registrar'')\<rparr>"

definition plain_whois :: "string \<Rightarrow> py_error + whois_entry" where
  "plain_whois domain =
     Inr \<lparr>creation_date = DateList [0, 5], whois_registrar = Some (Some ''Registrar'')\<rparr>"

definition failing_whois :: "string \<Rightarrow> py_error + whois_entry" where
  "failing_whois domain = Inl LookupFailure"

section \<open>Properties of the risk scorer\<close>

subsection \<open>The score in closed form\<close>

lemma weights_loop_sums:
  "weights_loop sigs ws (ts, tw) =
     (ts + sum_list (map (score_term sigs) ws), tw + sum_list (map (weight_term sigs) ws))"
  by (induction ws arbitrary: ts tw)
     (auto simp: score_term_def weight_term_def split: option.splits)

lemma result_fields:
  assumes "(case lt of Inl e \<Rightarrow> Inl e
            | Inr (level, text) \<Rightarrow>
                (if z then Inl ZeroDivisionError
                 else Inr \<lparr>risk_score = s, risk_level = level, explanation = text,
                           confidence = c\<rparr>)) = Inr r"
  shows "risk_score r = s \<and> confidence r = c"
  using assms by (cases lt) (auto split: if_splits)

lemma calculate_Inr:
  assumes "calculate self sigs = Inr r"
  shows "risk_score r = fused_score self sigs
         \<and> confidence r = real (available_signals sigs) / real (length (weights self))"
proof (cases "dict_get_default sigs ''financialIntent'' 0")
  case None
  with assms show ?thesis
    by (simp add: calculate_def weights_loop_sums py_gt_def)
next
  case (Some x)
  have fs: "fused_score self sigs =
      (if 0.5 < x then min (average self sigs * 1.3) 1 else average self sigs)"
    by (simp add: fused_score_def amplify_def Some)
  from assms show ?thesis
    unfolding calculate_def weights_loop_sums fs
    by (simp add: Some py_gt_def Let_def average_def result_fields del: One_nat_def)
qed

subsection \<open>Bounds on the score\<close>

lemma dict_get_in_range:
  assumes "in_unit_range sigs" "dict_get sigs k = Some x"
  shows "0 \<le> x \<and> x \<le> 1"
proof -
  from assms(2) have "map_of sigs k = Some (Some x)"
    by (simp add: dict_get_def split: option.splits)
  then have "(k, Some x) \<in> set sigs" by (rule map_of_SomeD)
  then have "Some x \<in> set (map snd sigs)" by force
  with assms(1) show ?thesis unfolding in_unit_range_def by fastforce
qed

lemma normalized_range: "0 \<le> x \<Longrightarrow> x \<le> 1 \<Longrightarrow> 0 \<le> normalized k x \<and> normalized k x \<le> 1"
  by (simp add: normalized_def)

lemma term_bounds:
  assumes "in_unit_range sigs" "0 \<le> snd p"
  shows "0 \<le> score_term sigs p" "score_term sigs p \<le> weight_term sigs p" 
proof -
  show "0 \<le> score_term sigs p"
    using assms dict_get_in_range[OF assms(1)] normalized_range
    by (auto simp: score_term_def split: option.splits)
  show "score_term sigs p \<le> weight_term sigs p"
    using assms dict_get_in_range[OF assms(1)] normalized_range
    by (auto simp: score_term_def weight_term_def mult_left_le_one_le split: option.splits)
qed

lemma average_range:
  assumes "in_unit_range sigs" "nonneg_weights self"
  shows "0 \<le> average self sigs \<and> average self sigs \<le> 1"
proof -
  let ?S = "sum_list (map (score_term sigs) (weights self))"
  let ?W = "sum_list (map (weight_term sigs) (weights self))"
  have "0 \<le> ?S"
    using assms term_bounds(1) by (intro sum_list_nonneg) (auto simp: nonneg_weights_def)
  moreover have "?S \<le> ?W"
    using assms term_bounds(2) by (intro sum_list_mono) (auto simp: nonneg_weights_def)
  ultimately show ?thesis
    by (simp add: average_def)
qed

lemma fused_score_range:
  assumes "in_unit_range sigs" "nonneg_weights self"
  shows "0 \<le> fused_score self sigs \<and> fused_score self sigs \<le> 1"
  using average_range[OF assms] by (simp add: fused_score_def)

lemma nonneg_weights_init: "nonneg_weights RiskScorer_init"
  by (simp add: nonneg_weights_def RiskScorer_init_def)

subsection \<open>When the call returns\<close>

text \<open>If no value stored in the dictionary is \<open>None\<close>, every comparison of
  \<open>calculate\<close> and \<open>_generate_explanation\<close> is between numbers, and the call returns.\<close>

lemma dict_get_default_Some:
  assumes "None \<notin> snd ` set sigs"
  shows "\<exists>x. dict_get_default sigs k d = Some x"
proof (cases "map_of sigs k")
  case None
  then show ?thesis by (simp add: dict_get_default_def)
next
  case (Some v)
  then have "(k, v) \<in> set sigs" by (rule map_of_SomeD)
  then have "v \<in> snd ` set sigs" by force
  with assms obtain x where "v = Some x" by (cases v) simp_all
  with Some show ?thesis by (simp add: dict_get_default_def)
qed

lemma generate_explanation_returns:
  assumes "None \<notin> snd ` set sigs" "level = ''high'' \<or> level = ''medium''"
  shows "\<exists>text. generate_explanation level sigs = Inr text"
proof -
  obtain a b c d where
    "dict_get_default sigs ''upiScam'' 0 = Some a"
    "dict_get_default sigs ''otpMisuse'' 0 = Some b"
    "dict_get_default sigs ''urlPhishing'' 0 = Some c"
    "dict_get_default sigs ''financialIntent'' 0 = Some d"
    using dict_get_default_Some[OF assms(1)] by metis
  with assms(2) show ?thesis
    by (auto simp: generate_explanation_def py_gt_def)
qed

lemma calculate_returns:
  assumes "None \<notin> snd ` set sigs" "weights self \<noteq> []"
  shows "\<exists>r. calculate self sigs = Inr r"
proof -
  obtain d where d: "dict_get_default sigs ''financialIntent'' 0 = Some d"
    using dict_get_default_Some[OF assms(1)] by metis
  obtain th where th: "generate_explanation ''high'' sigs = Inr th"
    using generate_explanation_returns[OF assms(1)] by blast
  obtain tm where tm: "generate_explanation ''medium'' sigs = Inr tm"
    using generate_explanation_returns[OF assms(1)] by blast
  show ?thesis
    using assms(2)
    by (simp add: calculate_def weights_loop_sums py_gt_def d th tm Let_def)
qed

subsection \<open>Replacing the value of one signal\<close>

lemma snd_set_update: "snd ` set (AList.update k v al) \<subseteq> insert v (snd ` set al)"
  by (induction al) auto

lemma dict_get_update:
  "dict_get (AList.update k (Some v) sigs) n = (if n = k then Some v else dict_get sigs n)"
  by (simp add: dict_get_def update_conv')

lemma dict_get_default_update:
  "dict_get_default (AList.update k (Some v) sigs) n d =
     (if n = k then Some v else dict_get_default sigs n d)"
  by (simp add: dict_get_default_def update_conv')

lemma dict_get_default_present:
  "dict_get sigs k = Some v \<Longrightarrow> dict_get_default sigs k d = Some v"
  by (simp add: dict_get_def dict_get_default_def split: option.splits)

lemma weight_term_update:
  assumes "dict_get sigs k = Some v"
  shows "weight_term (AList.update k (Some v') sigs) p = weight_term sigs p"
  using assms by (simp add: weight_term_def dict_get_update)

lemma score_term_update:
  assumes "dict_get sigs k = Some v" "normalized k v \<le> normalized k v'" "0 \<le> snd p"
  shows "score_term sigs p \<le> score_term (AList.update k (Some v') sigs) p"
  using assms by (simp add: score_term_def dict_get_update mult_right_mono)

lemma average_update:
  assumes "dict_get sigs k = Some v" "normalized k v \<le> normalized k v'" "nonneg_weights self"
  shows "average self sigs \<le> average self (AList.update k (Some v') sigs)"
proof -
  let ?sigs' = "AList.update k (Some v') sigs"
  have W: "map (weight_term ?sigs') (weights self) = map (weight_term sigs) (weights self)"
    using weight_term_update[OF assms(1)] by simp
  have S: "sum_list (map (score_term sigs) (weights self))
           \<le> sum_list (map (score_term ?sigs') (weights self))"
    using assms score_term_update[OF assms(1,2)]
    by (intro sum_list_mono) (simp add: nonneg_weights_def)
  show ?thesis
    unfolding average_def W using S by (simp add: divide_right_mono)
qed

lemma amplify_update:
  assumes "dict_get sigs k = Some v" "normalized k v \<le> normalized k v'" "amplify sigs"
  shows "amplify (AList.update k (Some v') sigs)"
proof (cases "k = ''financialIntent''")
  case True
  with assms show ?thesis
    by (simp add: amplify_def dict_get_default_update dict_get_default_present normalized_def)
next
  case False
  with assms(3) show ?thesis
    by (simp add: amplify_def dict_get_default_update)
qed

lemma fused_score_update:
  assumes "in_unit_range sigs" "dict_get sigs k = Some v" "normalized k v \<le> normalized k v'"
    "nonneg_weights self"
  shows "fused_score self sigs \<le> fused_score self (AList.update k (Some v') sigs)"
proof -
  let ?sigs' = "AList.update k (Some v') sigs"
  have a: "average self sigs \<le> average self ?sigs'"
    using average_update[OF assms(2,3,4)] .
  have r: "0 \<le> average self sigs" "average self sigs \<le> 1"
    using average_range[OF assms(1,4)] by simp_all
  show ?thesis
  proof (cases "amplify sigs")
    case True
    then have "amplify ?sigs'" using amplify_update[OF assms(2,3)] by simp
    with True a show ?thesis by (simp add: fused_score_def min_def)
  next
    case False
    with a r show ?thesis by (simp add: fused_score_def min_def)
  qed
qed

subsection \<open>Multiplying the weights by a constant\<close>




subsection \<open>The worked example\<close>

text \<open>On the dictionary \<open>{financialIntent: 0.6, urlPhishing: 0.8}\<close>, in which these two
  are the only keys, \<open>calculate\<close> returns the risk score
  \<open>(0.6 * 0.30 + 0.8 * 0.20) / 0.50 * 1.3 = 0.884\<close> and the level \<open>high\<close>.\<close>

lemma calculate_two_keys:
  "calculate RiskScorer_init [(''financialIntent'', Some 0.6), (''urlPhishing'', Some 0.8)]
     = Inr \<lparr>risk_score = 0.884, risk_level = ''high'',
            explanation = warning_sign @ '' HIGH RISK - DO NOT PROCEED. ''
              @ ''The URL shows strong phishing indicators. ''
              @ ''We strongly recommend leaving this website.'',
            confidence = 0.4\<rparr>"
  by (simp add: calculate_def RiskScorer_init_def dict_get_def dict_get_default_def py_gt_def
      generate_explanation_def available_signals_def normalized_def del: not_None_eq)

text \<open>
  Claim C1. The claim is that for the bundle in which \<open>financialIntent = 0.6\<close> and
  \<open>urlPhishing = 0.8\<close> are the only present signals, \<open>calculate\<close> returns the risk
  score 0.884 and the level high. In the form that the docstring of \<open>calculate\<close>
  describes and that the risk-score endpoint of app.py builds, the dictionary has all
  five keys and the three absent signals are stored as \<open>None\<close>. On it the score
  reaches the level high, \<open>_generate_explanation\<close> evaluates
  \<open>signals.get('upiScam', 0) > 0.7\<close> on the stored \<open>None\<close>, and the call raises
  \<open>TypeError\<close>. Without the three \<open>None\<close> entries the same call returns the values
  of the claim.
\<close>

theorem calculate_example_raises:
  "calculate RiskScorer_init
     [(''websiteTrust'', None), (''urlPhishing'', Some 0.8), (''financialIntent'', Some 0.6),
      (''otpMisuse'', None), (''upiScam'', None)] = Inl TypeError
   \<and> calculate RiskScorer_init [(''financialIntent'', Some 0.6), (''urlPhishing'', Some 0.8)]
     = Inr \<lparr>risk_score = 0.884, risk_level = ''high'',
            explanation = warning_sign @ '' HIGH RISK - DO NOT PROCEED. ''
              @ ''The URL shows strong phishing indicators. ''
              @ ''We strongly recommend leaving this website.'',
            confidence = 0.4\<rparr>"
proof
  show "calculate RiskScorer_init
     [(''websiteTrust'', None), (''urlPhishing'', Some 0.8), (''financialIntent'', Some 0.6),
      (''otpMisuse'', None), (''upiScam'', None)] = Inl TypeError"
    by (simp add: calculate_def RiskScorer_init_def dict_get_def dict_get_default_def
        py_gt_def generate_explanation_def normalized_def)
next
  show "calculate RiskScorer_init [(''financialIntent'', Some 0.6), (''urlPhishing'', Some 0.8)]
     = Inr \<lparr>risk_score = 0.884, risk_level = ''high'',
            explanation = warning_sign @ '' HIGH RISK - DO NOT PROCEED. ''
              @ ''The URL shows strong phishing indicators. ''
              @ ''We strongly recommend leaving this website.'',
            confidence = 0.4\<rparr>"
    by (rule calculate_two_keys)
qed

subsection \<open>The bundle with no signal\<close>

text \<open>
  Claim C6. The claim is that for the bundle in which each of the five signals is
  \<open>None\<close>, \<open>calculate\<close> raises nothing and returns score 0.0, level low and confidence
  0.0. On the dictionary that maps each of the five names to \<open>None\<close> (the one the
  risk-score endpoint of app.py builds from an empty request), the test
  \<open>signals.get('financialIntent', 0) > 0.5\<close> compares the stored \<open>None\<close> with a float:
  the default of \<open>get\<close> applies to a missing key only. The call raises \<open>TypeError\<close>.
\<close>

theorem calculate_all_absent_raises:
  "calculate RiskScorer_init all_absent = Inl TypeError"
  by (simp add: calculate_def all_absent_def RiskScorer_init_def dict_get_def dict_get_default_def py_gt_def)

text \<open>The division itself is guarded: on the empty dictionary, where the five keys are
  missing rather than \<open>None\<close>, the zero verdict is returned.\<close>

lemma calculate_empty_dict:
  "calculate RiskScorer_init []
     = Inr \<lparr>risk_score = 0, risk_level = ''low'',
            explanation = ''This page appears safe based on our analysis.'',
            confidence = 0\<rparr>"
  by (simp add: calculate_def RiskScorer_init_def dict_get_def dict_get_default_def py_gt_def
      available_signals_def)

subsection \<open>Range of the score and of the confidence\<close>

text \<open>
  Claim C2. The claim is that for every dictionary that maps each of the five names to
  \<open>None\<close> or to a float in [0,1], \<open>calculate\<close> returns a risk score and a confidence in
  [0,1]. It returns nothing on the two dictionaries below: in the first
  \<open>financialIntent\<close> is \<open>None\<close> and the amplification test raises \<open>TypeError\<close>; in the
  second the level is high and \<open>_generate_explanation\<close> compares the \<open>None\<close> stored
  under \<open>upiScam\<close> with 0.7.
\<close>

theorem calculate_raises_in_range:
  "calculate RiskScorer_init
     [(''websiteTrust'', None), (''urlPhishing'', Some 0.5), (''financialIntent'', None),
      (''otpMisuse'', None), (''upiScam'', None)] = Inl TypeError
   \<and> calculate RiskScorer_init
     [(''websiteTrust'', None), (''urlPhishing'', Some 0.8), (''financialIntent'', Some 0.6),
      (''otpMisuse'', None), (''upiScam'', None)] = Inl TypeError"
  by (simp add: calculate_def RiskScorer_init_def dict_get_def dict_get_default_def py_gt_def
      generate_explanation_def normalized_def)

lemma available_signals_le:
  assumes "distinct (map fst sigs)" "set (map fst sigs) \<subseteq> set (map fst (weights self))"
  shows "available_signals sigs \<le> length (weights self)"
proof -
  have "available_signals sigs \<le> length sigs"
    by (simp add: available_signals_def)
  also have "length sigs = card (set (map fst sigs))"
    using assms(1) by (metis distinct_card length_map)
  also have "\<dots> \<le> card (set (map fst (weights self)))"
    using assms(2) by (intro card_mono) simp_all
  also have "\<dots> \<le> length (weights self)"
    by (metis card_length length_map)
  finally show ?thesis .
qed

text \<open>Whenever \<open>calculate\<close> does return on a dictionary over the five names with values
  in [0,1], both numbers are in [0,1].\<close>

lemma calculate_result_range:
  assumes "in_unit_range sigs" "distinct (map fst sigs)"
    "set (map fst sigs) \<subseteq> set (map fst (weights RiskScorer_init))"
    "calculate RiskScorer_init sigs = Inr r"
  shows "0 \<le> risk_score r \<and> risk_score r \<le> 1 \<and> 0 \<le> confidence r \<and> confidence r \<le> 1"
proof -
  have "available_signals sigs \<le> length (weights RiskScorer_init)"
    using available_signals_le[OF assms(2,3)] .
  then have "real (available_signals sigs) / real (length (weights RiskScorer_init)) \<le> 1"
    by (simp add: RiskScorer_init_def)
  then show ?thesis
    using calculate_Inr[OF assms(4)] fused_score_range[OF assms(1) nonneg_weights_init]
    by simp
qed

subsection \<open>Monotonicity\<close>

text \<open>
  Claim C7. Let the values of the dictionary be in [0,1] and let \<open>k\<close> be a key with a
  value \<open>v\<close>. Storing under \<open>k\<close> a value \<open>v'\<close> whose normalised value (\<open>1 - v'\<close> for
  \<open>websiteTrust\<close>, \<open>v'\<close> otherwise) is at least that of \<open>v\<close> never decreases the risk
  score: whenever both calls return, the second score is at least the first. Both calls
  do return when no value of the dictionary is \<open>None\<close>.
\<close>

theorem fusion_monotone:
  assumes "in_unit_range sigs"
    and "dict_get sigs k = Some v"
    and "normalized k v \<le> normalized k v'"
  shows "(\<forall>r r'. calculate RiskScorer_init sigs = Inr r
            \<longrightarrow> calculate RiskScorer_init (AList.update k (Some v') sigs) = Inr r'
            \<longrightarrow> risk_score r \<le> risk_score r')
       \<and> (None \<notin> snd ` set sigs
            \<longrightarrow> (\<exists>r r'. calculate RiskScorer_init sigs = Inr r
                  \<and> calculate RiskScorer_init (AList.update k (Some v') sigs) = Inr r'))"
proof (intro conjI allI impI)
  fix r r'
  assume "calculate RiskScorer_init sigs = Inr r"
    and "calculate RiskScorer_init (AList.update k (Some v') sigs) = Inr r'"
  then show "risk_score r \<le> risk_score r'"
    using fused_score_update[OF assms nonneg_weights_init] by (simp add: calculate_Inr)
next
  assume n: "None \<notin> snd ` set sigs"
  have w: "weights RiskScorer_init \<noteq> []" by (simp add: RiskScorer_init_def)
  have "None \<notin> snd ` set (AList.update k (Some v') sigs)"
    using n snd_set_update[of k "Some v'" sigs] by auto
  then show "\<exists>r r'. calculate RiskScorer_init sigs = Inr r
                  \<and> calculate RiskScorer_init (AList.update k (Some v') sigs) = Inr r'"
    using calculate_returns[OF n w] calculate_returns[OF _ w] by blast
qed

theorem fusion_monotone_witness:
  "in_unit_range quiet_signals
   \<and> dict_get quiet_signals ''financialIntent''
       = Some 0.4
   \<and> normalized ''financialIntent'' 0.4 \<le> normalized ''financialIntent'' 0.6
   \<and> (\<exists>r r'. calculate RiskScorer_init quiet_signals = Inr r
         \<and> calculate RiskScorer_init
                  (AList.update ''financialIntent'' (Some 0.6)
                     quiet_signals) = Inr r'
         \<and> risk_score r \<le> risk_score r')"
proof -
  let ?s = quiet_signals
  have h1: "in_unit_range ?s" by (simp add: in_unit_range_def quiet_signals_def)
  have h2: "dict_get ?s ''financialIntent'' = Some 0.4" by (simp add: dict_get_def quiet_signals_def)
  have h3: "normalized ''financialIntent'' 0.4 \<le> normalized ''financialIntent'' 0.6"
    by (simp add: normalized_def)
  have h4: "None \<notin> snd ` set ?s" by (simp add: quiet_signals_def)
  from fusion_monotone[OF h1 h2 h3] h4 have "\<exists>r r'. calculate RiskScorer_init ?s = Inr r
         \<and> calculate RiskScorer_init (AList.update ''financialIntent'' (Some 0.6) ?s) = Inr r'
         \<and> risk_score r \<le> risk_score r'"
    by blast
  with h1 h2 h3 show ?thesis by blast
qed

subsection \<open>Rescaling the weights\<close>






















subsection \<open>Confidence\<close>

text \<open>
  Claim C10. Whenever \<open>calculate\<close> returns, the confidence is the number of values of
  the dictionary that are not \<open>None\<close>, under any key, divided by 5. The dictionary
  \<open>crowded_signals\<close> has eight keys: the five names, \<open>websiteTrust\<close> stored as
  \<open>None\<close>, and three more keys, one of them stored as \<open>None\<close>. Six of its values are
  not \<open>None\<close>, and the confidence returned is 6/5, above 1.
\<close>

theorem confidence_counts_all_values:
  "(\<forall>sigs r. calculate RiskScorer_init sigs = Inr r
       \<longrightarrow> confidence r = real (length (filter (\<lambda>v. v \<noteq> None) (map snd sigs))) / 5)
   \<and> (\<exists>r. calculate RiskScorer_init crowded_signals = Inr r \<and> confidence r = 6 / 5
          \<and> 1 < confidence r)"
proof (intro conjI allI impI)
  fix sigs r assume "calculate RiskScorer_init sigs = Inr r"
  then show "confidence r = real (length (filter (\<lambda>v. v \<noteq> None) (map snd sigs))) / 5"
    using calculate_Inr[of RiskScorer_init sigs r]
    by (simp add: RiskScorer_init_def available_signals_def)
next
  show "\<exists>r. calculate RiskScorer_init crowded_signals = Inr r \<and> confidence r = 6 / 5
          \<and> 1 < confidence r"
    by (simp add: calculate_def crowded_signals_def RiskScorer_init_def dict_get_def
      dict_get_default_def py_gt_def available_signals_def normalized_def del: not_None_eq)
qed

theorem confidence_counts_all_values_witness:
  "\<exists>r. calculate RiskScorer_init crowded_signals = Inr r
       \<and> confidence r
           = real (length (filter (\<lambda>v. v \<noteq> None) (map snd crowded_signals))) / 5
       \<and> length (filter (\<lambda>v. v \<noteq> None) (map snd crowded_signals)) = 6
       \<and> length crowded_signals = 8
       \<and> None \<in> set (map snd crowded_signals)"
proof -
  obtain r where r: "calculate RiskScorer_init crowded_signals = Inr r"
    using confidence_counts_all_values by blast
  then have "confidence r
           = real (length (filter (\<lambda>v. v \<noteq> None) (map snd crowded_signals))) / 5"
    using confidence_counts_all_values by blast
  moreover have "length (filter (\<lambda>v. v \<noteq> None) (map snd crowded_signals)) = 6"
    by (simp add: crowded_signals_def del: not_None_eq)
  moreover have "length crowded_signals = 8" "None \<in> set (map snd crowded_signals)"
    by (simp_all add: crowded_signals_def)
  ultimately show ?thesis using r by blast
qed

section \<open>Properties of the URL phishing detector\<close>

lemma bind_Inr: "bind (Inr x) f = f x"
  by (simp add: bind_def)

lemma bind_Inl: "bind (Inl e) f = Inl e"
  by (simp add: bind_def)

lemma rule_Inr:
  "rule (Inr b) inc (Inr r) st =
     Inr (fst st + (if b then inc else 0), snd st @ (if b then [r] else []))"
  by (simp add: rule_def bind_def)

lemma rule_Inr_False: "rule (Inr False) inc reason st = Inr st"
  by (simp add: rule_def bind_def)

lemma rule_Inl: "rule (Inl e) inc reason st = Inl e"
  by (simp add: rule_def bind_def)

lemma analyze_parse_failure:
  assumes "urlparse url = Inl e"
  shows "analyze_url self url = Inl KeyError"
  using assms
  by (simp add: analyze_url_def extract_features_def url_rules_def getitem_def val_gt_def
       truthy_def bind_Inr bind_Inl rule_Inr rule_Inl rule_Inr_False
       get_default_features_def)

lemma urlparse_bracket: "urlparse ''http://['' = Inl ValueError"
  by (simp add: urlparse_def Let_def splitnetloc_def scheme_chars_def ascii_lowercase_def
       ascii_uppercase_def digits_def)

lemma urlparse_ip:
  "urlparse ''http://192.168.1.1/login?x=1''
     = Inr \<lparr>netloc = ''192.168.1.1'', path = ''/login''\<rparr>"
  by (simp add: urlparse_def Let_def splitnetloc_def scheme_chars_def ascii_lowercase_def
       ascii_uppercase_def digits_def lower_def lower_char_def uses_params_def)

subsection \<open>The default record\<close>

text \<open>
  Claim C3. The claim is that feature extraction returns, for every string, a record
  with every field populated, on a parse failure the complete default record, so that
  \<open>analyze\<close> never sees an error. For the string \<open>http://[\<close> the parser raises
  \<open>ValueError\<close> (unmatched bracket); \<open>_extract_features\<close> catches it and returns
  \<open>_get_default_features()\<close>, which has five keys only: \<open>num_subdomains\<close>, \<open>num_at\<close>,
  \<open>num_hyphens\<close>, \<open>tld\<close>, \<open>has_punycode\<close> and the others are missing. \<open>analyze\<close> then
  reads \<open>features['num_subdomains']\<close> and raises \<open>KeyError\<close>.
\<close>

theorem default_features_partial:
  "urlparse ''http://['' = Inl ValueError
   \<and> extract_features URLPhishingDetector_init ''http://['' = get_default_features
   \<and> map fst get_default_features
       = [''length'', ''num_dots'', ''has_ip'', ''suspicious_tld'', ''domain_entropy'']
   \<and> getitem (extract_features URLPhishingDetector_init ''http://['') ''num_subdomains''
       = Inl KeyError
   \<and> analyze_url URLPhishingDetector_init ''http://['' = Inl KeyError"
  by (simp add: urlparse_bracket extract_features_def analyze_parse_failure getitem_def
      get_default_features_def)

subsection \<open>The scoring rules\<close>

lemma Counter_ip: "map snd (Counter ''192.168.1.1'') = [4, 1, 1, 3, 1, 1]"
  by (simp add: Counter_def counter_add_def)

lemma log2_lower:
  assumes "1 / 16 \<le> x"
  shows "- 4 \<le> log 2 x"
proof -
  have "0 < x" using assms by simp
  moreover have "2 powr (- 4) = (1 / 16 :: real)"
    by (simp add: powr_minus_divide)
  ultimately show ?thesis using assms by (simp add: le_log_iff)
qed

lemma entropy_ip: "calculate_entropy ''192.168.1.1'' \<le> 4"
proof -
  have a: "- 4 \<le> log 2 (4 / 11)" by (rule log2_lower) simp
  have b: "- 4 \<le> log 2 (1 / 11)" by (rule log2_lower) simp
  have c: "- 4 \<le> log 2 (3 / 11)" by (rule log2_lower) simp
  have "calculate_entropy ''192.168.1.1'' =
      - (4 / 11) * log 2 (4 / 11) - 4 * ((1 / 11) * log 2 (1 / 11))
      - (3 / 11) * log 2 (3 / 11)"
    by (simp add: calculate_entropy_def Counter_ip)
  also have "\<dots> \<le> 4" using a b c by simp
  finally show ?thesis .
qed

lemma ip_search: "re_search False ip_pattern ''192.168.1.1'' = Some ''192.168.1.1''"
  by (simp add: ip_pattern_def isdigit_def digits_def Let_def)

lemma analyze_ip_example:
  "analyze_url URLPhishingDetector_init ''http://192.168.1.1/login?x=1'' =
     Inr \<lparr>phishing_score = 0.3, is_phishing = False,
           reasons = [[Text ''URL contains IP address'']],
           features = extract_features URLPhishingDetector_init
                        ''http://192.168.1.1/login?x=1''\<rparr>"
proof -
  have sp: "split_char CHR ''.'' ''192.168.1.1'' = [''192'', ''168'', ''1'', ''1'']"
    by simp
  have np: "\<not> contains ''xn--'' ''192.168.1.1''"
    by (simp add: startswith_def)
  have lw: "lower ''1'' = ''1''"
    by (simp add: lower_def lower_char_def ascii_uppercase_def ascii_lowercase_def)
  show ?thesis
    unfolding analyze_url_def Let_def extract_features_def urlparse_ip sum.case
      parse_result.simps
    using entropy_ip
    by (simp add: url_rules_def getitem_def val_gt_def truthy_def bind_Inr rule_Inr
        URLPhishingDetector_init_def ip_search sp np lw
        del: contains.simps re_search.simps split_char.simps)
qed

text \<open>
  Claim C5. The claim is that for every URL \<open>analyze\<close> computes the score as the
  clamped sum of the additive terms over the extracted features and the verdict as
  \<open>score > 0.6\<close>, and that \<open>http://192.168.1.1/login?x=1\<close> gets 0.3 and a negative
  verdict. On the string \<open>http://[\<close> \<open>analyze\<close> computes no score: the features are the
  five-key default record and reading \<open>features['num_subdomains']\<close> raises \<open>KeyError\<close>,
  where the sum over the default features would be 0. The example of the claim holds:
  the only rule that fires is the IP address, the score is 0.3 and the verdict is
  negative.
\<close>

theorem analyze_url_raises_unparsed:
  "analyze_url URLPhishingDetector_init ''http://['' = Inl KeyError
   \<and> analyze_url URLPhishingDetector_init ''http://192.168.1.1/login?x=1'' =
       Inr \<lparr>phishing_score = 0.3, is_phishing = False,
             reasons = [[Text ''URL contains IP address'']],
             features = extract_features URLPhishingDetector_init
                          ''http://192.168.1.1/login?x=1''\<rparr>"
  by (simp add: analyze_parse_failure[OF urlparse_bracket] analyze_ip_example)

section \<open>Properties of the domain checker\<close>

lemma check_age_dated:
  assumes "whois (clean_domain domain) = Inr w"
    and "first_date (creation_date w) = Inr (Some created)"
  shows "check_age self whois now domain =
           \<lparr>age_days = timedelta_days now created,
            is_new = (timedelta_days now created < new_domain_threshold_days self),
            registration_date = Some created,
            registrar = (case whois_registrar w of None \<Rightarrow> None | Some r \<Rightarrow> r)\<rparr>"
  using assms by (simp add: check_age_def age_of_entry_def Let_def split: option.splits)

lemma check_age_undated:
  assumes "\<not> (\<exists>w created. whois (clean_domain domain) = Inr w
                \<and> first_date (creation_date w) = Inr (Some created))"
  shows "check_age self whois now domain =
           \<lparr>age_days = - 1, is_new = False, registration_date = None, registrar = None\<rparr>"
proof (cases "whois (clean_domain domain)")
  case (Inl e)
  then show ?thesis by (simp add: check_age_def)
next
  case (Inr w)
  with assms have "first_date (creation_date w) = Inr None
                   \<or> (\<exists>e. first_date (creation_date w) = Inl e)"
    by (cases "first_date (creation_date w)") auto
  with Inr show ?thesis
    by (auto simp: check_age_def age_of_entry_def)
qed

text \<open>
  Claim C9, as the claim states it: \<open>is_new\<close> holds iff \<open>0 \<le> age_days < 90\<close>. For a
  creation date one hour after the clock reading, the difference is minus one hour,
  whose \<open>days\<close> is \<open>-1\<close>; \<open>check_age\<close> returns \<open>age_days = -1\<close> and \<open>is_new = True\<close>,
  since the only test is \<open>age.days < 90\<close>.
\<close>

theorem check_age_future_counterexample:
  "\<not> (is_new (check_age DomainChecker_init future_whois 0 ''example.com'')
        \<longleftrightarrow> 0 \<le> age_days (check_age DomainChecker_init future_whois 0 ''example.com'')
            \<and> age_days (check_age DomainChecker_init future_whois 0 ''example.com'') < 90)"
proof -
  have "check_age DomainChecker_init future_whois 0 ''example.com'' =
          \<lparr>age_days = - 1, is_new = True, registration_date = Some 3600000000,
           registrar = Some ''Registrar''\<rparr>"
    by (simp add: check_age_def age_of_entry_def future_whois_def first_date_def
        timedelta_days_def microseconds_per_day_def DomainChecker_init_def)
  then show ?thesis by simp
qed

text \<open>
  Claim C9, amended. When the WHOIS entry has a creation date (the date itself, or
  the first of a list), \<open>age_days\<close> is the number of whole days, rounded down, from that
  date to the clock reading (negative for a date after it), \<open>is_new\<close> holds iff
  \<open>age_days < 90\<close>, and the registration date is that date. In every other case (the
  lookup raises, the entry has no creation date, the list of dates is empty) the result is
  \<open>age_days = -1\<close>, \<open>is_new = False\<close>, no registration date and no registrar; as a total
  function \<open>check_age\<close> returns a result in every case.
\<close>

theorem check_age_new_iff:
  "(\<forall>w created. whois (clean_domain domain) = Inr w
        \<longrightarrow> first_date (creation_date w) = Inr (Some created)
        \<longrightarrow> age_days (check_age DomainChecker_init whois now domain)
              = timedelta_days now created
          \<and> (is_new (check_age DomainChecker_init whois now domain)
               \<longleftrightarrow> age_days (check_age DomainChecker_init whois now domain) < 90)
          \<and> registration_date (check_age DomainChecker_init whois now domain)
              = Some created)
   \<and> (\<not> (\<exists>w created. whois (clean_domain domain) = Inr w
               \<and> first_date (creation_date w) = Inr (Some created))
        \<longrightarrow> check_age DomainChecker_init whois now domain
            = \<lparr>age_days = - 1, is_new = False, registration_date = None,
               registrar = None\<rparr>)"
proof (intro conjI allI impI)
  fix w created
  assume a: "whois (clean_domain domain) = Inr w"
    and b: "first_date (creation_date w) = Inr (Some created)"
  show "age_days (check_age DomainChecker_init whois now domain)
          = timedelta_days now created"
    by (simp add: check_age_dated[where whois = whois, OF a b])
  show "is_new (check_age DomainChecker_init whois now domain)
          \<longleftrightarrow> age_days (check_age DomainChecker_init whois now domain) < 90"
    by (simp add: check_age_dated[where whois = whois, OF a b] DomainChecker_init_def)
  show "registration_date (check_age DomainChecker_init whois now domain) = Some created"
    by (simp add: check_age_dated[where whois = whois, OF a b])
next
  assume "\<not> (\<exists>w created. whois (clean_domain domain) = Inr w
               \<and> first_date (creation_date w) = Inr (Some created))"
  then show "check_age DomainChecker_init whois now domain
            = \<lparr>age_days = - 1, is_new = False, registration_date = None,
               registrar = None\<rparr>"
    by (rule check_age_undated)
qed

theorem check_age_new_iff_witness:
  "(plain_whois (clean_domain ''https://www.example.com/'')
      = Inr \<lparr>creation_date = DateList [0, 5], whois_registrar = Some (Some ''Registrar'')\<rparr>
    \<and> first_date (DateList [0, 5]) = Inr (Some 0)
    \<and> age_days (check_age DomainChecker_init plain_whois (100 * microseconds_per_day)
                  ''https://www.example.com/'') = 100
    \<and> \<not> is_new (check_age DomainChecker_init plain_whois (100 * microseconds_per_day)
                  ''https://www.example.com/''))
   \<and> (\<not> (\<exists>w created. failing_whois (clean_domain ''example.com'') = Inr w
               \<and> first_date (creation_date w) = Inr (Some created))
      \<and> check_age DomainChecker_init failing_whois 0 ''example.com''
            = \<lparr>age_days = - 1, is_new = False, registration_date = None,
               registrar = None\<rparr>)"
proof -
  let ?w = "\<lparr>creation_date = DateList [0, 5], whois_registrar = Some (Some ''Registrar'')\<rparr>"
  have h1: "plain_whois (clean_domain ''https://www.example.com/'') = Inr ?w"
    by (simp add: plain_whois_def)
  have h2: "first_date (creation_date ?w) = Inr (Some 0)"
    by (simp add: first_date_def)
  have h3: "\<not> (\<exists>w created. failing_whois (clean_domain ''example.com'') = Inr w
               \<and> first_date (creation_date w) = Inr (Some created))"
    by (simp add: failing_whois_def)
  have t: "timedelta_days (100 * microseconds_per_day) 0 = 100"
    by (simp add: timedelta_days_def microseconds_per_day_def)
  from check_age_new_iff[of plain_whois "''https://www.example.com/''"
      "100 * microseconds_per_day"] h1 h2
  have "age_days (check_age DomainChecker_init plain_whois (100 * microseconds_per_day)
                  ''https://www.example.com/'') = timedelta_days (100 * microseconds_per_day) 0
    \<and> (is_new (check_age DomainChecker_init plain_whois (100 * microseconds_per_day)
                  ''https://www.example.com/'')
         \<longleftrightarrow> age_days (check_age DomainChecker_init plain_whois (100 * microseconds_per_day)
                  ''https://www.example.com/'') < 90)"
    by blast
  then have p1: "age_days (check_age DomainChecker_init plain_whois (100 * microseconds_per_day)
                  ''https://www.example.com/'') = 100
    \<and> \<not> is_new (check_age DomainChecker_init plain_whois (100 * microseconds_per_day)
                  ''https://www.example.com/'')"
    by (simp add: t)
  from check_age_new_iff[of failing_whois "''example.com''" 0] h3
  have p2: "check_age DomainChecker_init failing_whois 0 ''example.com''
            = \<lparr>age_days = - 1, is_new = False, registration_date = None,
               registrar = None\<rparr>"
    by blast
  from h1 h2 h3 p1 p2 show ?thesis by simp
qed

section \<open>Properties of the email phishing detector\<close>

text \<open>The example email: subject \<open>URGENT: your account will be suspended\<close>, empty
  body, no sender domain, no classifier. The text that is searched is the subject in
  lower case followed by a space.\<close>

lemma lower_subject:
  "lower (''URGENT: your account will be suspended'' @ '' '' @ '''')
     = ''urgent: your account will be suspended ''"
  by code_simp

lemma urgency_found:
  "find_patterns ''urgent: your account will be suspended ''
     (urgency_patterns (EmailPhishingDetector_init None))
     = [''urgent'', ''account will be suspended'']"
  by code_simp

lemma fear_not_found:
  "find_patterns ''urgent: your account will be suspended ''
     (fear_patterns (EmailPhishingDetector_init None)) = []"
  by code_simp

lemma reward_not_found:
  "find_patterns ''urgent: your account will be suspended ''
     (reward_patterns (EmailPhishingDetector_init None)) = []"
  by code_simp

lemma keywords_found:
  "filter (\<lambda>kw. contains kw ''urgent: your account will be suspended '')
     (bank_keywords (EmailPhishingDetector_init None)) = [''account'']"
  by code_simp

lemma no_classifier: "classifier (EmailPhishingDetector_init None) = None"
  by (simp add: EmailPhishingDetector_init_def)

lemma analyze_email_urgent:
  "analyze_email (EmailPhishingDetector_init None)
     ''URGENT: your account will be suspended'' '''' None None
   = \<lparr>phishing_score = 0.45, is_phishing = False,
      reasons = [[Text ''Urgency tactics detected: '',
                  Text ''urgent, account will be suspended'']],
      pattern_matches = [(''urgency'', [''urgent'', ''account will be suspended'']),
                         (''fear'', []), (''reward'', []),
                         (''financial'', [''account''])]\<rparr>"
  unfolding analyze_email_def Let_def lower_subject urgency_found fear_not_found
    reward_not_found keywords_found no_classifier
  by (simp add: add_if_def)

text \<open>
  Claim C4, as the claim states it: an urgency match and a fear match are found, the
  score is at least 0.5 and the email is flagged. The account-suspended phrasing is one
  of the urgency patterns; no fear pattern mentions a suspension, so the list of fear
  matches is empty, the score stays below 0.5 and the email is not flagged.
\<close>

theorem email_example_counterexample:
  "map_of (pattern_matches (analyze_email (EmailPhishingDetector_init None)
             ''URGENT: your account will be suspended'' '''' None None)) ''fear'' = Some []
   \<and> \<not> 0.5 \<le> phishing_score (analyze_email (EmailPhishingDetector_init None)
             ''URGENT: your account will be suspended'' '''' None None)
   \<and> \<not> is_phishing (analyze_email (EmailPhishingDetector_init None)
             ''URGENT: your account will be suspended'' '''' None None)"
  by (simp add: analyze_email_urgent)

text \<open>
  Claim C4, amended. For that email \<open>analyze\<close> finds the urgency matches \<open>urgent\<close> and
  \<open>account will be suspended\<close> (0.3), no fear and no reward match, and the one financial
  keyword \<open>account\<close> (0.15, without a reason since fewer than three keywords are
  found): the score is 0.45 and the email is not flagged.
\<close>

theorem email_example:
  "analyze_email (EmailPhishingDetector_init None)
     ''URGENT: your account will be suspended'' '''' None None
   = \<lparr>phishing_score = 0.45, is_phishing = False,
      reasons = [[Text ''Urgency tactics detected: '',
                  Text ''urgent, account will be suspended'']],
      pattern_matches = [(''urgency'', [''urgent'', ''account will be suspended'']),
                         (''fear'', []), (''reward'', []),
                         (''financial'', [''account''])]\<rparr>"
  by (rule analyze_email_urgent)

end
